theory Spec2Isabelle
  imports Complex_Main "HOL-Library.Word" "HOL-Library.Sublist" "HOL-Library.Multiset"
begin

section \<open>Strings and values of the host language\<close>

text \<open>
  A JavaScript string is a sequence of 16-bit code units; \<open>===\<close> on strings compares
  the sequences.  Literals of the source are written through \<open>ascii\<close>.
\<close>

type_synonym code_unit = "16 word"

type_synonym jsstring = "code_unit list"

definition ascii :: "string \<Rightarrow> jsstring" where
  "ascii s = map (\<lambda>c. of_nat (of_char c)) s"

text \<open>
  A JavaScript number.  No modelled path computes with numbers; only their truthiness
  is observed (\<open>0\<close> and \<open>NaN\<close> are falsy).
\<close>

datatype jsnum = Finite rat | NaN | Infinite bool

text \<open>
  The values \<open>JSON.parse\<close> can produce, together with \<open>undefined\<close> (the value of
  a property that is not there).  An object is its list of own properties.
\<close>

datatype jsval =
    Undefined
  | Null
  | Bool bool
  | Num jsnum
  | Str jsstring
  | Arr "jsval list"
  | Obj "(jsstring \<times> jsval) list"

text \<open>\<open>if (v)\<close>: the truthiness of a value.\<close>

fun truthy :: "jsval \<Rightarrow> bool" where
  "truthy Undefined = False"
| "truthy Null = False"
| "truthy (Bool b) = b"
| "truthy (Num (Finite r)) = (r \<noteq> 0)"
| "truthy (Num NaN) = False"
| "truthy (Num (Infinite _)) = True"
| "truthy (Str s) = (s \<noteq> [])"
| "truthy (Arr _) = True"
| "truthy (Obj _) = True"

text \<open>The outcome of awaiting an external call: it resolves with a value or rejects.\<close>

datatype 'a settled = Resolved 'a | Rejected

section \<open>The document tree (types.ts)\<close>

record GeneratedImage =
  image_id :: jsstring
  base64 :: jsstring
  prompt :: jsstring

text \<open>
  The \<open>exercises\<close> of a set are whatever \<open>data.exercises\<close> evaluated to when the set
  was built: the code stores the parsed response unvalidated, so the field is a \<open>jsval\<close>
  (declared in types.ts as an array of \<open>{problem, parts}\<close>).
\<close>

record ExerciseSet =
  set_id :: jsstring
  focusedIdea :: jsstring
  exercises :: jsval

datatype input_type = text_input | image_input

record UserInput =
  input_type :: input_type
  input_content :: jsstring

record SolverSet =
  solver_id :: jsstring
  userInput :: UserInput
  solution :: jsstring

record Section =
  section_id :: jsstring
  section_title :: jsstring
  content :: "jsstring option"
  images :: "GeneratedImage list"

record Chapter =
  chapter_id :: jsstring
  chapter_title :: jsstring
  sections :: "Section list"
  exerciseSets :: "ExerciseSet list"
  solverSets :: "SolverSet list"

record Outline =
  title :: jsstring
  chapters :: "Chapter list"
  examSets :: "ExerciseSet list"

datatype Language = English | Arabic | French | Spanish | German | Chinese

section \<open>Session state of the application (App.tsx)\<close>

record AppState =
  apiKey :: "jsstring option"
  outline :: "Outline option"
  topic :: jsstring
  numChapters :: jsnum
  language :: Language
  isLoading :: bool
  error :: "jsstring option"

text \<open>The state setters returned by \<open>useState\<close>: each replaces one cell.\<close>

definition setOutline :: "Outline option \<Rightarrow> AppState \<Rightarrow> AppState" where
  "setOutline v st = st\<lparr>outline := v\<rparr>"

definition setTopic :: "jsstring \<Rightarrow> AppState \<Rightarrow> AppState" where
  "setTopic v st = st\<lparr>topic := v\<rparr>"

definition setError :: "jsstring option \<Rightarrow> AppState \<Rightarrow> AppState" where
  "setError v st = st\<lparr>error := v\<rparr>"

definition setIsLoading :: "bool \<Rightarrow> AppState \<Rightarrow> AppState" where
  "setIsLoading v st = st\<lparr>isLoading := v\<rparr>"

text \<open>\<open>handleReset\<close>: three setter calls, in the order of the source.\<close>

definition handleReset :: "AppState \<Rightarrow> AppState" where
  "handleReset st = setError None (setTopic [] (setOutline None st))"

text \<open>
  \<open>handleGenerateOutline\<close> is asynchronous.  Up to the \<open>await\<close> it runs on the state
  of the click; \<open>None\<close> is the early \<open>return\<close> (no credential or no topic), in which case
  no request is made.  After the \<open>await\<close> the setters act on whatever the state is by
  then, so the second half takes that state.
\<close>

definition outline_failed_message :: jsstring where
  "outline_failed_message =
     ascii ''Failed to generate outline. Please check your API key and try again.''"

definition unexpected_error_message :: jsstring where
  "unexpected_error_message = ascii ''An unexpected error occurred.''"

definition handleGenerateOutline_begin :: "AppState \<Rightarrow> AppState option" where
  "handleGenerateOutline_begin st =
     (if apiKey st = None \<or> apiKey st = Some [] \<or> topic st = [] then None
      else Some (setError None (setIsLoading True st)))"

definition handleGenerateOutline_settle ::
  "Outline option settled \<Rightarrow> AppState \<Rightarrow> AppState" where
  "handleGenerateOutline_settle awaited st =
     setIsLoading False
       (case awaited of
          Resolved (Some result) \<Rightarrow> setOutline (Some result) st
        | Resolved None \<Rightarrow> setError (Some outline_failed_message) st
        | Rejected \<Rightarrow> setError (Some unexpected_error_message) st)"

text \<open>The error banner is rendered by \<open>{error && ...}\<close>.\<close>

definition error_visible :: "AppState \<Rightarrow> bool" where
  "error_visible st = (case error st of None \<Rightarrow> False | Some m \<Rightarrow> m \<noteq> [])"

section \<open>Targeted mutation of the tree (OutlineView.tsx, ChapterView.tsx)\<close>

text \<open>
  \<open>updateChapter\<close> hands \<open>setOutline\<close> the function below; React applies it to the
  outline of the moment (\<open>None\<close> is \<open>null\<close>).
\<close>

definition updateChapter ::
  "jsstring \<Rightarrow> (Chapter \<Rightarrow> Chapter) \<Rightarrow> Outline option \<Rightarrow> Outline option" where
  "updateChapter chapterId updater prevOutline =
     (case prevOutline of
        None \<Rightarrow> None
      | Some p \<Rightarrow>
          Some (p\<lparr>chapters :=
                   map (\<lambda>c. if chapter_id c = chapterId then updater c else c) (chapters p)\<rparr>))"

text \<open>
  \<open>updateSection\<close> of the \<open>ChapterView\<close> whose chapter has id \<open>chapterId\<close> (the
  \<open>chapter.id\<close> of its props).
\<close>

definition updateSection ::
  "jsstring \<Rightarrow> jsstring \<Rightarrow> (Section \<Rightarrow> Section) \<Rightarrow> Outline option \<Rightarrow> Outline option" where
  "updateSection chapterId sectionId updater =
     updateChapter chapterId
       (\<lambda>prevChapter. prevChapter\<lparr>sections :=
          map (\<lambda>s. if section_id s = sectionId then updater s else s) (sections prevChapter)\<rparr>)"

subsection \<open>Object identity\<close>

text \<open>
  The records above are values.  JavaScript objects also have an identity, which \<open>===\<close>
  compares: an object literal \<open>{...}\<close> always creates a new object, and passing an
  object on (as \<open>map\<close> does with the chapters it does not touch) keeps it.  No code of the
  repository assigns to a field of an existing object, so an object is described by
  its reference together with its content.  \<open>updateChapter_obj\<close> is \<open>updateChapter\<close>
  with the references written out; \<open>fresh\<close> is the reference the engine gives the object
  literal, different from that of every object that exists.
\<close>

type_synonym ref = nat

record ChapterObj =
  chapter_ref :: ref
  chapter_of :: Chapter

record OutlineObj =
  outline_ref :: ref
  obj_title :: jsstring
  obj_chapters :: "ChapterObj list"
  obj_examSets :: "ExerciseSet list"

definition updateChapter_obj ::
  "ref \<Rightarrow> jsstring \<Rightarrow> (ChapterObj \<Rightarrow> ChapterObj) \<Rightarrow> OutlineObj option \<Rightarrow> OutlineObj option" where
  "updateChapter_obj fresh chapterId updater prevOutline =
     (case prevOutline of
        None \<Rightarrow> None
      | Some p \<Rightarrow>
          Some (p\<lparr>outline_ref := fresh,
                  obj_chapters :=
                    map (\<lambda>c. if chapter_id (chapter_of c) = chapterId then updater c else c)
                      (obj_chapters p)\<rparr>))"

text \<open>Forgetting the references gives the tree as a value.\<close>

definition erase :: "OutlineObj \<Rightarrow> Outline" where
  "erase p = \<lparr>title = obj_title p, chapters = map chapter_of (obj_chapters p),
              examSets = obj_examSets p\<rparr>"

definition chapter_ids :: "OutlineObj \<Rightarrow> jsstring list" where
  "chapter_ids p = map (\<lambda>c. chapter_id (chapter_of c)) (obj_chapters p)"

subsection \<open>Deleting a set by id\<close>

text \<open>
  The three \<open>onDelete\<close> handlers. The first two are the updaters handed to
  \<open>updateChapter\<close>, the third the one handed to \<open>setOutline\<close>.
\<close>

definition onDelete_exerciseSet :: "jsstring \<Rightarrow> Chapter \<Rightarrow> Chapter" where
  "onDelete_exerciseSet i p = p\<lparr>exerciseSets := filter (\<lambda>s. set_id s \<noteq> i) (exerciseSets p)\<rparr>"

definition onDelete_solverSet :: "jsstring \<Rightarrow> Chapter \<Rightarrow> Chapter" where
  "onDelete_solverSet i p = p\<lparr>solverSets := filter (\<lambda>s. solver_id s \<noteq> i) (solverSets p)\<rparr>"

definition onDelete_examSet :: "jsstring \<Rightarrow> Outline option \<Rightarrow> Outline option" where
  "onDelete_examSet i prev =
     (case prev of
        None \<Rightarrow> None
      | Some p \<Rightarrow> Some (p\<lparr>examSets := filter (\<lambda>s. set_id s \<noteq> i) (examSets p)\<rparr>))"

subsection \<open>Small trees used to instantiate the theorems\<close>

definition example_chapter :: "jsstring \<Rightarrow> Chapter" where
  "example_chapter i =
     \<lparr>chapter_id = i, chapter_title = ascii ''t'', sections = [], exerciseSets = [], solverSets = []\<rparr>"

definition example_tree :: OutlineObj where
  "example_tree =
     \<lparr>outline_ref = 0, obj_title = ascii ''course'',
      obj_chapters = [\<lparr>chapter_ref = 1, chapter_of = example_chapter (ascii ''a'')\<rparr>,
                      \<lparr>chapter_ref = 2, chapter_of = example_chapter (ascii ''b'')\<rparr>],
      obj_examSets = []\<rparr>"

definition example_rename :: "ChapterObj \<Rightarrow> ChapterObj" where
  "example_rename c = \<lparr>chapter_ref = 4, chapter_of = (chapter_of c)\<lparr>chapter_title := ascii ''new''\<rparr>\<rparr>"

definition example_section :: "jsstring \<Rightarrow> Section" where
  "example_section i = \<lparr>section_id = i, section_title = ascii ''s'', content = None, images = []\<rparr>"

definition example_outline :: Outline where
  "example_outline =
     \<lparr>title = ascii ''course'',
      chapters = [(example_chapter (ascii ''a''))\<lparr>sections := [example_section (ascii ''s1'')]\<rparr>,
                  example_chapter (ascii ''b'')],
      examSets = []\<rparr>"

definition example_fill :: "Section \<Rightarrow> Section" where
  "example_fill s = s\<lparr>content := Some (ascii ''text'')\<rparr>"

definition example_set :: "jsstring \<Rightarrow> jsstring \<Rightarrow> ExerciseSet" where
  "example_set i idea = \<lparr>set_id = i, focusedIdea = idea, exercises = Arr []\<rparr>"

definition example_solver :: "jsstring \<Rightarrow> SolverSet" where
  "example_solver i =
     \<lparr>solver_id = i, userInput = \<lparr>input_type = text_input, input_content = ascii ''2+2''\<rparr>,
      solution = ascii ''4''\<rparr>"

definition example_busy_chapter :: Chapter where
  "example_busy_chapter =
     (example_chapter (ascii ''a''))
       \<lparr>exerciseSets := [example_set (ascii ''e1'') [], example_set (ascii ''e2'') []],
        solverSets := [example_solver (ascii ''v1''), example_solver (ascii ''v2'')]\<rparr>"

definition example_repeated :: Chapter where
  "example_repeated =
     (example_chapter (ascii ''a''))
       \<lparr>exerciseSets := [example_set (ascii ''e'') (ascii ''one''),
                         example_set (ascii ''f'') [],
                         example_set (ascii ''e'') (ascii ''two''),
                         example_set (ascii ''g'') []],
        solverSets := [example_solver (ascii ''v''), example_solver (ascii ''w''),
                       example_solver (ascii ''v'')]\<rparr>"

definition example_duplicates :: Chapter where
  "example_duplicates =
     (example_chapter (ascii ''a''))
       \<lparr>exerciseSets := [example_set (ascii ''e'') (ascii ''one''),
                         example_set (ascii ''e'') (ascii ''two'')]\<rparr>"

section \<open>The generation service (geminiService.ts)\<close>

text \<open>
  Reading a property \<open>v.name\<close>.  On \<open>null\<close> and \<open>undefined\<close> it throws a
  TypeError; on an object it is the property's value, or \<open>undefined\<close> when the object
  has none of that name; the other values have no own property of the names read here
  (\<open>exercises\<close>, \<open>topics\<close>), and neither have their prototypes.
\<close>

datatype js_error = TypeError

fun get_prop :: "jsval \<Rightarrow> jsstring \<Rightarrow> js_error + jsval" where
  "get_prop Undefined name = Inl TypeError"
| "get_prop Null name = Inl TypeError"
| "get_prop (Obj props) name = Inr (case map_of props name of None \<Rightarrow> Undefined | Some v \<Rightarrow> v)"
| "get_prop v name = Inr Undefined"

subsection \<open>The cleanup pass of tryParseJson\<close>

text \<open>
  \<open>\s\<close> of a regular expression and the characters \<open>trim()\<close> removes: the white
  space and line terminator code points of ECMAScript.
\<close>

definition is_space :: "code_unit \<Rightarrow> bool" where
  "is_space c =
     (c = 0x0009 \<or> c = 0x000A \<or> c = 0x000B \<or> c = 0x000C \<or> c = 0x000D \<or> c = 0x0020
      \<or> c = 0x00A0 \<or> c = 0x1680 \<or> (0x2000 \<le> c \<and> c \<le> 0x200A) \<or> c = 0x2028
      \<or> c = 0x2029 \<or> c = 0x202F \<or> c = 0x205F \<or> c = 0x3000 \<or> c = 0xFEFF)"

definition trim :: "jsstring \<Rightarrow> jsstring" where
  "trim s = rev (dropWhile is_space (rev (dropWhile is_space s)))"

text \<open>
  \<open>replace(/```json|```/g, '')\<close>: scanning from the left, a match of the first
  alternative, else of the second, is removed and the scan goes on behind it.
\<close>

definition fence :: jsstring where
  "fence = ascii ''```''"

definition fence_json :: jsstring where
  "fence_json = ascii ''```json''"

function strip_fences :: "jsstring \<Rightarrow> jsstring" where
  "strip_fences [] = []"
| "strip_fences (c # cs) =
     (if take 7 (c # cs) = fence_json then strip_fences (drop 7 (c # cs))
      else if take 3 (c # cs) = fence then strip_fences (drop 3 (c # cs))
      else c # strip_fences cs)"
  by pat_completeness auto
termination
  by (relation "measure length") auto

text \<open>
  \<open>replace(/,(\s*[\}\]])/g, '$1')\<close>: a comma followed by white space and a closing
  brace or bracket is dropped, the white space and the bracket stay, and the scan goes
  on behind the bracket.
\<close>

function strip_trailing_commas :: "jsstring \<Rightarrow> jsstring" where
  "strip_trailing_commas [] = []"
| "strip_trailing_commas (c # cs) =
     (case dropWhile is_space cs of
        [] \<Rightarrow> c # strip_trailing_commas cs
      | d # rest \<Rightarrow>
          if c = 0x2C \<and> (d = 0x7D \<or> d = 0x5D)
          then takeWhile is_space cs @ d # strip_trailing_commas rest
          else c # strip_trailing_commas cs)"
  by pat_completeness auto
termination
proof (relation "measure length")
  fix c :: code_unit and cs d rest
  assume "dropWhile is_space cs = d # rest"
  then have "length (d # rest) \<le> length cs"
    by (metis length_dropWhile_le)
  then show "(rest, c # cs) \<in> measure length" by simp
qed auto

definition cleanup :: "jsstring \<Rightarrow> jsstring" where
  "cleanup jsonString = strip_trailing_commas (trim (strip_fences jsonString))"

text \<open>
  \<open>tryParseJson\<close>.  \<open>JSON.parse\<close> belongs to the host and is a parameter: \<open>None\<close>
  is its SyntaxError, which the \<open>catch\<close> turns into the fallback.
\<close>

definition tryParseJson :: "(jsstring \<Rightarrow> jsval option) \<Rightarrow> jsstring \<Rightarrow> jsval \<Rightarrow> jsval" where
  "tryParseJson parse jsonString fallback =
     (case parse (cleanup jsonString) of None \<Rightarrow> fallback | Some v \<Rightarrow> v)"

subsection \<open>The calls\<close>

text \<open>
  Each call awaits the external service inside \<open>try\<close>; its outcome, the text of the
  response or a rejection, is the argument \<open>awaited\<close>.  The prompt only feeds the
  external call, so \<open>generateChapterExercises\<close> and \<open>generateExam\<close> are both
  \<open>generateExercises\<close> on their own response.
\<close>

definition no_exercises :: jsval where
  "no_exercises = Obj [(ascii ''exercises'', Arr [])]"

definition generateExercises :: "(jsstring \<Rightarrow> jsval option) \<Rightarrow> jsstring settled \<Rightarrow> jsval" where
  "generateExercises parse awaited =
     (case awaited of
        Resolved jsonText \<Rightarrow> tryParseJson parse jsonText no_exercises
      | Rejected \<Rightarrow> no_exercises)"

definition solver_error_message :: jsstring where
  "solver_error_message = ascii ''Error: Could not get a solution.''"

definition solveWithAI :: "jsstring settled \<Rightarrow> jsstring" where
  "solveWithAI awaited = (case awaited of Resolved t \<Rightarrow> t | Rejected \<Rightarrow> solver_error_message)"

text \<open>
  \<open>extractTopicsFromText\<close>: the read of \<open>result.topics\<close> is inside the \<open>try\<close>, so
  its TypeError also ends in the empty array.
\<close>

definition extractTopicsFromText :: "(jsstring \<Rightarrow> jsval option) \<Rightarrow> jsstring settled \<Rightarrow> jsval" where
  "extractTopicsFromText parse awaited =
     (case awaited of
        Resolved t \<Rightarrow>
          (case get_prop (tryParseJson parse t (Obj [(ascii ''topics'', Arr [])])) (ascii ''topics'') of
             Inr topics \<Rightarrow> topics
           | Inl _ \<Rightarrow> Arr [])
      | Rejected \<Rightarrow> Arr [])"

text \<open>What the declared return type \<open>string[]\<close> admits.\<close>

fun is_string :: "jsval \<Rightarrow> bool" where
  "is_string (Str _) = True"
| "is_string _ = False"

fun is_string_array :: "jsval \<Rightarrow> bool" where
  "is_string_array (Arr vs) = list_all is_string vs"
| "is_string_array _ = False"

subsection \<open>JSON texts\<close>

text \<open>
  The texts \<open>JSON.parse\<close> accepts: the grammar of ECMA-404, as the sets of strings
  its nonterminals derive.  A JSON text is an \<open>element\<close>: a value with optional white
  space on both sides.
\<close>

definition json_ws :: "jsstring \<Rightarrow> bool" where
  "json_ws w = list_all (\<lambda>c. c = 0x20 \<or> c = 0x0A \<or> c = 0x0D \<or> c = 0x09) w"

definition is_digit :: "code_unit \<Rightarrow> bool" where
  "is_digit c = (0x30 \<le> c \<and> c \<le> 0x39)"

definition is_hex :: "code_unit \<Rightarrow> bool" where
  "is_hex c = (is_digit c \<or> (0x41 \<le> c \<and> c \<le> 0x46) \<or> (0x61 \<le> c \<and> c \<le> 0x66))"

definition json_digits :: "jsstring \<Rightarrow> bool" where
  "json_digits ds = (ds \<noteq> [] \<and> list_all is_digit ds)"

definition json_integer :: "jsstring \<Rightarrow> bool" where
  "json_integer s = (s = [0x30] \<or> (json_digits s \<and> hd s \<noteq> 0x30))"

definition json_fraction :: "jsstring \<Rightarrow> bool" where
  "json_fraction s = (s = [] \<or> (\<exists>ds. s = 0x2E # ds \<and> json_digits ds))"

definition json_exponent :: "jsstring \<Rightarrow> bool" where
  "json_exponent s =
     (s = [] \<or> (\<exists>e sign ds. s = e # sign @ ds \<and> (e = 0x45 \<or> e = 0x65)
                   \<and> (sign = [] \<or> sign = [0x2B] \<or> sign = [0x2D]) \<and> json_digits ds))"

definition json_number :: "jsstring \<Rightarrow> bool" where
  "json_number s =
     (\<exists>sign i f e. s = sign @ i @ f @ e \<and> (sign = [] \<or> sign = [0x2D]) \<and> json_integer i
        \<and> json_fraction f \<and> json_exponent e)"

inductive json_characters :: "jsstring \<Rightarrow> bool" where
  no_characters: "json_characters []"
| character: "0x20 \<le> c \<Longrightarrow> c \<noteq> 0x22 \<Longrightarrow> c \<noteq> 0x5C \<Longrightarrow> json_characters cs
    \<Longrightarrow> json_characters (c # cs)"
| escape: "e \<in> {0x22, 0x5C, 0x2F, 0x62, 0x66, 0x6E, 0x72, 0x74} \<Longrightarrow> json_characters cs
    \<Longrightarrow> json_characters (0x5C # e # cs)"
| unicode_escape: "is_hex h1 \<Longrightarrow> is_hex h2 \<Longrightarrow> is_hex h3 \<Longrightarrow> is_hex h4 \<Longrightarrow> json_characters cs
    \<Longrightarrow> json_characters (0x5C # 0x75 # h1 # h2 # h3 # h4 # cs)"

inductive json_value :: "jsstring \<Rightarrow> bool"
  and json_element :: "jsstring \<Rightarrow> bool"
  and json_elements :: "jsstring \<Rightarrow> bool"
  and json_member :: "jsstring \<Rightarrow> bool"
  and json_members :: "jsstring \<Rightarrow> bool" where
  null: "json_value (ascii ''null'')"
| true: "json_value (ascii ''true'')"
| false: "json_value (ascii ''false'')"
| number: "json_number n \<Longrightarrow> json_value n"
| string: "json_characters cs \<Longrightarrow> json_value (0x22 # cs @ [0x22])"
| empty_array: "json_ws w \<Longrightarrow> json_value (0x5B # w @ [0x5D])"
| array: "json_elements es \<Longrightarrow> json_value (0x5B # es @ [0x5D])"
| empty_object: "json_ws w \<Longrightarrow> json_value (0x7B # w @ [0x7D])"
| object: "json_members ms \<Longrightarrow> json_value (0x7B # ms @ [0x7D])"
| element: "json_ws w1 \<Longrightarrow> json_value v \<Longrightarrow> json_ws w2 \<Longrightarrow> json_element (w1 @ v @ w2)"
| one_element: "json_element e \<Longrightarrow> json_elements e"
| more_elements: "json_element e \<Longrightarrow> json_elements es \<Longrightarrow> json_elements (e @ 0x2C # es)"
| member: "json_ws w1 \<Longrightarrow> json_characters k \<Longrightarrow> json_ws w2 \<Longrightarrow> json_element e
    \<Longrightarrow> json_member (w1 @ 0x22 # k @ 0x22 # w2 @ 0x3A # e)"
| one_member: "json_member m \<Longrightarrow> json_members m"
| more_members: "json_member m \<Longrightarrow> json_members ms \<Longrightarrow> json_members (m @ 0x2C # ms)"

definition json_text :: "jsstring \<Rightarrow> bool" where
  "json_text s = json_element s"

subsection \<open>Texts the cleanup pass does not touch\<close>

text \<open>
  The three things the cleanup pass looks for: white space at either end, a fence
  marker anywhere, and a comma followed by white space and a closing brace or bracket
  anywhere.
\<close>

definition trimmed :: "jsstring \<Rightarrow> bool" where
  "trimmed s = (case s of [] \<Rightarrow> True | c # cs \<Rightarrow> \<not> is_space c \<and> \<not> is_space (last s))"

fun has_fence :: "jsstring \<Rightarrow> bool" where
  "has_fence [] = False"
| "has_fence (c # cs) = (take 3 (c # cs) = fence \<or> has_fence cs)"

fun has_trailing_comma :: "jsstring \<Rightarrow> bool" where
  "has_trailing_comma [] = False"
| "has_trailing_comma (c # cs) =
     ((c = 0x2C \<and> (case dropWhile is_space cs of [] \<Rightarrow> False | d # _ \<Rightarrow> d = 0x7D \<or> d = 0x5D))
      \<or> has_trailing_comma cs)"

section \<open>The handlers of the views (ChapterView.tsx, OutlineView.tsx, SectionView.tsx)\<close>

text \<open>
  A handler is an \<open>async\<close> function.  What it does after its \<open>await\<close> is the
  \<open>settle\<close> function below: it takes the awaited result, everything the closure
  captured when the handler was called (the \<open>chapter\<close> or \<open>section\<close> of the props of
  that render, the \<open>idea\<close>, the solver inputs), the id that \<open>crypto.randomUUID()\<close>
  returns, and the state of the moment: the state cells of the component and the outline
  held by \<open>App\<close>.  Both may have changed since the call.
\<close>

subsection \<open>ChapterView\<close>

record ChapterViewState =
  cv_isOpen :: bool
  cv_isLoading :: "jsstring \<rightharpoonup> bool"
  cv_modal :: "jsstring option"
  cv_focusedIdea :: jsstring
  cv_solverText :: jsstring
  cv_solverImage :: "jsstring option"
  cv_extractedTopics :: jsval

text \<open>\<open>Partial<Chapter>\<close>, and the spread \<open>{...prevChapter, ...patch}\<close>.\<close>

record ChapterPatch =
  patch_id :: "jsstring option"
  patch_title :: "jsstring option"
  patch_sections :: "Section list option"
  patch_exerciseSets :: "ExerciseSet list option"
  patch_solverSets :: "SolverSet list option"

definition no_patch :: ChapterPatch where
  "no_patch = \<lparr>patch_id = None, patch_title = None, patch_sections = None,
               patch_exerciseSets = None, patch_solverSets = None\<rparr>"

definition spread_patch :: "Chapter \<Rightarrow> ChapterPatch \<Rightarrow> Chapter" where
  "spread_patch prevChapter patch =
     \<lparr>chapter_id = (case patch_id patch of None \<Rightarrow> chapter_id prevChapter | Some v \<Rightarrow> v),
      chapter_title = (case patch_title patch of None \<Rightarrow> chapter_title prevChapter | Some v \<Rightarrow> v),
      sections = (case patch_sections patch of None \<Rightarrow> sections prevChapter | Some v \<Rightarrow> v),
      exerciseSets =
        (case patch_exerciseSets patch of None \<Rightarrow> exerciseSets prevChapter | Some v \<Rightarrow> v),
      solverSets = (case patch_solverSets patch of None \<Rightarrow> solverSets prevChapter | Some v \<Rightarrow> v)\<rparr>"

definition handleAction_begin :: "jsstring \<Rightarrow> ChapterViewState \<Rightarrow> ChapterViewState" where
  "handleAction_begin action view = view\<lparr>cv_isLoading := (cv_isLoading view)(action \<mapsto> True)\<rparr>"

text \<open>
  \<open>handleAction\<close> after \<open>await generator()\<close>.  The result is of any type;
  \<open>is_truthy\<close> is \<open>if (result)\<close> at that type.
\<close>

definition handleAction_settle ::
  "Chapter \<Rightarrow> jsstring \<Rightarrow> ('r \<Rightarrow> bool) \<Rightarrow> ('r \<Rightarrow> ChapterPatch) \<Rightarrow> 'r
     \<Rightarrow> ChapterViewState \<times> Outline option \<Rightarrow> ChapterViewState \<times> Outline option" where
  "handleAction_settle chapter action is_truthy updater result world =
     (case world of
        (view, tree) \<Rightarrow>
          (view\<lparr>cv_isLoading := (cv_isLoading view)(action \<mapsto> False),
                cv_modal := None, cv_focusedIdea := []\<rparr>,
           if is_truthy result
           then updateChapter (chapter_id chapter)
                  (\<lambda>prevChapter. spread_patch prevChapter (updater result)) tree
           else tree))"

text \<open>
  The updater of \<open>handleGenerateExercises\<close>.  It is only called on a truthy
  \<open>data\<close>, for which reading \<open>data.exercises\<close> cannot throw.
\<close>

definition exercises_updater :: "Chapter \<Rightarrow> jsstring \<Rightarrow> jsstring \<Rightarrow> jsval \<Rightarrow> ChapterPatch" where
  "exercises_updater chapter newId idea data =
     no_patch\<lparr>patch_exerciseSets :=
       Some (exerciseSets chapter @
             [\<lparr>set_id = newId, focusedIdea = idea,
               exercises = (case get_prop data (ascii ''exercises'') of
                              Inr v \<Rightarrow> v | Inl _ \<Rightarrow> Undefined)\<rparr>])\<rparr>"

definition handleGenerateExercises_settle ::
  "Chapter \<Rightarrow> jsstring \<Rightarrow> jsstring \<Rightarrow> jsval
     \<Rightarrow> ChapterViewState \<times> Outline option \<Rightarrow> ChapterViewState \<times> Outline option" where
  "handleGenerateExercises_settle chapter newId idea data =
     handleAction_settle chapter (ascii ''exercises'') truthy
       (exercises_updater chapter newId idea) data"

text \<open>
  \<open>handleSolverSubmit\<close>: \<open>solverText\<close> and \<open>solverImage\<close> are the values the
  closure captured; the \<open>then\<close> empties both cells afterwards.
\<close>

definition solver_updater ::
  "Chapter \<Rightarrow> jsstring \<Rightarrow> jsstring \<Rightarrow> jsstring option \<Rightarrow> jsstring \<Rightarrow> ChapterPatch" where
  "solver_updater chapter newId solverText solverImage answer =
     no_patch\<lparr>patch_solverSets :=
       Some (solverSets chapter @
             [\<lparr>solver_id = newId,
               userInput =
                 (case solverImage of
                    None \<Rightarrow> \<lparr>input_type = text_input, input_content = solverText\<rparr>
                  | Some img \<Rightarrow>
                      if img \<noteq> [] then \<lparr>input_type = image_input, input_content = img\<rparr>
                      else \<lparr>input_type = text_input, input_content = solverText\<rparr>),
               solution = answer\<rparr>])\<rparr>"

definition handleSolverSubmit_settle ::
  "Chapter \<Rightarrow> jsstring \<Rightarrow> jsstring \<Rightarrow> jsstring option \<Rightarrow> jsstring
     \<Rightarrow> ChapterViewState \<times> Outline option \<Rightarrow> ChapterViewState \<times> Outline option" where
  "handleSolverSubmit_settle chapter newId solverText solverImage result world =
     (case handleAction_settle chapter (ascii ''solver'') (\<lambda>s. s \<noteq> [])
             (solver_updater chapter newId solverText solverImage) result world of
        (view, tree) \<Rightarrow> (view\<lparr>cv_solverImage := None, cv_solverText := []\<rparr>, tree))"

subsection \<open>OutlineView\<close>

record OutlineViewState =
  ov_isLoading :: "jsstring \<rightharpoonup> bool"
  ov_isModalOpen :: bool
  ov_focusedIdea :: jsstring

definition handleGenerateExam_begin :: "OutlineViewState \<Rightarrow> OutlineViewState" where
  "handleGenerateExam_begin view =
     view\<lparr>ov_isLoading := (ov_isLoading view)(ascii ''exam'' \<mapsto> True)\<rparr>"

text \<open>
  \<open>handleGenerateExam\<close> after its \<open>await\<close>.  Reading \<open>data.exercises\<close> throws on
  \<open>null\<close>; the handler has no \<open>try\<close>, so then none of its setters runs and the state
  stays as it is (\<open>Inl\<close>).
\<close>

definition handleGenerateExam_settle ::
  "jsstring \<Rightarrow> jsstring \<Rightarrow> jsval \<Rightarrow> OutlineViewState \<times> Outline option
     \<Rightarrow> js_error + OutlineViewState \<times> Outline option" where
  "handleGenerateExam_settle newId idea data world =
     (case world of
        (view, tree) \<Rightarrow>
          (case get_prop data (ascii ''exercises'') of
             Inl e \<Rightarrow> Inl e
           | Inr exs \<Rightarrow>
               Inr (view\<lparr>ov_isLoading := (ov_isLoading view)(ascii ''exam'' \<mapsto> False),
                         ov_isModalOpen := False, ov_focusedIdea := []\<rparr>,
                    if truthy exs
                    then (case tree of
                            None \<Rightarrow> None
                          | Some prev \<Rightarrow>
                              Some (prev\<lparr>examSets := examSets prev @
                                      [\<lparr>set_id = newId, focusedIdea = idea, exercises = exs\<rparr>]\<rparr>))
                    else tree)))"

subsection \<open>SectionView\<close>

record SectionViewState =
  sv_isOpen :: bool
  sv_isLoading :: bool
  sv_isImageLoading :: bool
  sv_isModalOpen :: bool
  sv_focusedIdea :: jsstring

text \<open>
  \<open>handleGenerateImage\<close> after its \<open>await\<close>; \<open>chapterId\<close> is the \<open>chapter.id\<close>
  bound in the \<open>updateSection\<close> it was given, \<open>base64Image\<close> the bytes or \<open>null\<close>.
\<close>

definition handleGenerateImage_settle ::
  "jsstring \<Rightarrow> Section \<Rightarrow> jsstring \<Rightarrow> jsstring \<Rightarrow> jsstring option
     \<Rightarrow> SectionViewState \<times> Outline option \<Rightarrow> SectionViewState \<times> Outline option" where
  "handleGenerateImage_settle chapterId section newId idea base64Image world =
     (case world of
        (view, tree) \<Rightarrow>
          (view\<lparr>sv_isImageLoading := False, sv_focusedIdea := []\<rparr>,
           (case base64Image of
              None \<Rightarrow> tree
            | Some bytes \<Rightarrow>
                if bytes \<noteq> []
                then updateSection chapterId (section_id section)
                       (\<lambda>prevSection. prevSection\<lparr>images := images prevSection @
                          [\<lparr>image_id = newId,
                            base64 = ascii ''data:image/jpeg;base64,'' @ bytes,
                            prompt = (if idea \<noteq> [] then idea else section_title section)\<rparr>]\<rparr>)
                       tree
                else tree)))"

subsection \<open>Reading a chapter's sequences out of the tree\<close>

definition exerciseSets_of :: "jsstring \<Rightarrow> Outline option \<Rightarrow> ExerciseSet list list" where
  "exerciseSets_of chapterId tree =
     (case tree of
        None \<Rightarrow> []
      | Some p \<Rightarrow> map exerciseSets (filter (\<lambda>c. chapter_id c = chapterId) (chapters p)))"

definition solverSets_of :: "jsstring \<Rightarrow> Outline option \<Rightarrow> SolverSet list list" where
  "solverSets_of chapterId tree =
     (case tree of
        None \<Rightarrow> []
      | Some p \<Rightarrow> map solverSets (filter (\<lambda>c. chapter_id c = chapterId) (chapters p)))"

subsection \<open>States used to instantiate the theorems\<close>

definition example_view :: ChapterViewState where
  "example_view =
     \<lparr>cv_isOpen = True, cv_isLoading = [ascii ''exercises'' \<mapsto> True, ascii ''solver'' \<mapsto> True],
      cv_modal = Some (ascii ''exercises''), cv_focusedIdea = ascii ''limits'',
      cv_solverText = ascii ''2+2'', cv_solverImage = None, cv_extractedTopics = Arr []\<rparr>"

definition example_outline_view :: OutlineViewState where
  "example_outline_view =
     \<lparr>ov_isLoading = [ascii ''exam'' \<mapsto> True], ov_isModalOpen = True,
      ov_focusedIdea = ascii ''limits''\<rparr>"

text \<open>
  A chapter with one exercise set and one solver set as the props of a render hold it,
  and the tree it is part of.
\<close>

definition example_snapshot :: Chapter where
  "example_snapshot =
     (example_chapter (ascii ''a''))
       \<lparr>exerciseSets := [example_set (ascii ''e1'') []],
        solverSets := [example_solver (ascii ''v1'')]\<rparr>"

definition example_snapshot_tree :: "Outline option" where
  "example_snapshot_tree =
     Some \<lparr>title = ascii ''course'',
           chapters = [example_snapshot, example_chapter (ascii ''b'')],
           examSets = []\<rparr>"

definition example_data :: jsval where
  "example_data =
     Obj [(ascii ''exercises'',
           Arr [Obj [(ascii ''problem'', Str (ascii ''p'')), (ascii ''parts'', Arr [])]])]"

section \<open>Properties of the session state\<close>

lemma outline_failed_message_nonempty: "outline_failed_message \<noteq> []"
  by (simp add: outline_failed_message_def ascii_def)

text \<open>
  C7.  When the outline request resolves with null, whatever the state is at that
  moment, the course is left as it was (absent stays absent, an existing one stays),
  the loading flag is cleared, and the error message is set to the fixed non-empty
  text, which the banner shows.  Nothing but a later generate or reset writes the
  error cell, so the message stays.
\<close>

theorem C7_null_outline_sets_error:
  "outline (handleGenerateOutline_settle (Resolved None) st) = outline st
   \<and> isLoading (handleGenerateOutline_settle (Resolved None) st) = False
   \<and> error (handleGenerateOutline_settle (Resolved None) st) = Some outline_failed_message
   \<and> error_visible (handleGenerateOutline_settle (Resolved None) st)"
  by (simp add: handleGenerateOutline_settle_def setError_def setIsLoading_def
      error_visible_def outline_failed_message_nonempty)

text \<open>
  C10.  Reset empties the course, the topic and the error message, and leaves the
  language, the chapter count, the credential and the loading flag as they were.
\<close>

theorem C10_reset_frame:
  "outline (handleReset st) = None
   \<and> topic (handleReset st) = []
   \<and> error (handleReset st) = None
   \<and> language (handleReset st) = language st
   \<and> numChapters (handleReset st) = numChapters st
   \<and> apiKey (handleReset st) = apiKey st
   \<and> isLoading (handleReset st) = isLoading st"
  by (simp add: handleReset_def setOutline_def setTopic_def setError_def)

section \<open>Properties of the targeted mutations\<close>

subsection \<open>Lists whose elements carry an id\<close>




lemma map_if_distinct_update:
  assumes "distinct (map f xs)" and "x \<in> set (map f xs)"
  shows "\<exists>i<length xs. f (xs ! i) = x
           \<and> map (\<lambda>c. if f c = x then g c else c) xs = xs[i := g (xs ! i)]
           \<and> (\<forall>j<length xs. f (xs ! j) = x \<longrightarrow> j = i)"
proof -
  from assms(2) obtain i where i: "i < length xs" "f (xs ! i) = x"
    by (auto simp: in_set_conv_nth)
  have uniq: "j = i" if "j < length xs" "f (xs ! j) = x" for j
  proof -
    have "map f xs ! j = map f xs ! i" using that i by simp
    with assms(1) that(1) i(1) show ?thesis
      by (simp add: nth_eq_iff_index_eq del: nth_map)
  qed
  have "map (\<lambda>c. if f c = x then g c else c) xs = xs[i := g (xs ! i)]"
  proof (rule nth_equalityI)
    show "length (map (\<lambda>c. if f c = x then g c else c) xs) = length (xs[i := g (xs ! i)])"
      by simp
  next
    fix j assume "j < length (map (\<lambda>c. if f c = x then g c else c) xs)"
    then have j: "j < length xs" by simp
    show "map (\<lambda>c. if f c = x then g c else c) xs ! j = xs[i := g (xs ! i)] ! j"
      using j i uniq[of j] by (auto simp: nth_list_update)
  qed
  with i uniq show ?thesis by blast
qed

lemma map_if_absent:
  "x \<notin> set (map f xs) \<Longrightarrow> map (\<lambda>c. if f c = x then g c else c) xs = xs"
  by (induction xs) auto

lemma filter_absent:
  "x \<notin> set (map f xs) \<Longrightarrow> filter (\<lambda>s. f s \<noteq> x) xs = xs"
  by (induction xs) auto

lemma filter_distinct_present:
  assumes "distinct (map f xs)" and "x \<in> set (map f xs)"
  shows "\<exists>ys s zs. xs = ys @ s # zs \<and> f s = x \<and> filter (\<lambda>s. f s \<noteq> x) xs = ys @ zs"
proof -
  from assms(2) obtain s where "s \<in> set xs" "f s = x" by auto
  then obtain ys zs where xs: "xs = ys @ s # zs" by (auto dest: split_list)
  with assms(1) \<open>f s = x\<close> have "x \<notin> set (map f ys)" "x \<notin> set (map f zs)" by auto
  then have "filter (\<lambda>s. f s \<noteq> x) ys = ys" "filter (\<lambda>s. f s \<noteq> x) zs = zs"
    by (simp_all add: filter_absent)
  with xs \<open>f s = x\<close> show ?thesis by auto
qed

text \<open>
  What is kept when ids repeat: each element as often as it occurred if its id differs,
  not at all if it has the id.  Together with being a subsequence of the input this
  fixes the result, order included.
\<close>

lemma count_list_filter_id:
  "count_list (filter (\<lambda>s. f s \<noteq> x) xs) s = (if f s = x then 0 else count_list xs s)"
  by (induction xs) auto

lemma kept_in_order_unique:
  assumes "subseq ys xs"
    and "\<And>s. count_list ys s = (if f s = x then 0 else count_list xs s)"
  shows "ys = filter (\<lambda>s. f s \<noteq> x) xs"
proof -
  have "f s \<noteq> x" if "s \<in> set ys" for s
  proof
    assume "f s = x"
    then have "count_list ys s = 0" using assms(2) by simp
    with that show False by (simp add: count_list_0_iff)
  qed
  then have "filter (\<lambda>s. f s \<noteq> x) ys = ys" by (simp add: filter_id_conv)
  with subseq_filter[OF assms(1), of "\<lambda>s. f s \<noteq> x"]
  have sub: "subseq ys (filter (\<lambda>s. f s \<noteq> x) xs)" by simp
  have "mset ys = mset (filter (\<lambda>s. f s \<noteq> x) xs)"
    by (rule multiset_eqI) (simp add: count_mset assms(2) count_list_filter_id del: mset_filter)
  then have "length ys = length (filter (\<lambda>s. f s \<noteq> x) xs)" by (rule mset_eq_length)
  with sub show ?thesis by (rule subseq_same_length)
qed

subsection \<open>updateChapter and updateSection\<close>

text \<open>
  With the references forgotten, \<open>updateChapter_obj\<close> is \<open>updateChapter\<close>.
\<close>

lemma updateChapter_obj_erase:
  assumes "\<And>c. chapter_of (updater c) = f (chapter_of c)"
  shows "map_option erase (updateChapter_obj fresh chapterId updater prev)
         = updateChapter chapterId f (map_option erase prev)"
  using assms
  by (cases prev) (simp_all add: updateChapter_obj_def updateChapter_def erase_def comp_def
      if_distrib[of chapter_of] cong: if_cong)

text \<open>
  In any tree, whether its ids repeat or not, each position of the chapters array is
  decided on its own: a chapter with the id gets the updater's result, any other stays
  the object it is.
\<close>

lemma updateChapter_obj_pointwise:
  "\<exists>q. updateChapter_obj fresh chapterId updater (Some p) = Some q
       \<and> length (obj_chapters q) = length (obj_chapters p)
       \<and> (\<forall>j<length (obj_chapters p).
             obj_chapters q ! j =
               (if chapter_id (chapter_of (obj_chapters p ! j)) = chapterId
                then updater (obj_chapters p ! j) else obj_chapters p ! j))"
  by (simp add: updateChapter_obj_def)

text \<open>
  C1.  In a tree whose chapter ids are pairwise different, and for an id \<open>chapterId\<close>
  that occurs in it, \<open>updateChapter\<close> replaces the one chapter with that id by the
  updater's result on it.  Every other position of the chapters array holds the very
  object it held before (the same reference, hence the same sections, exercise sets and
  solver sets), and the title and the exam sets are those of the input.
\<close>

theorem C1_updateChapter_frame:
  assumes "distinct (chapter_ids p)" and "chapterId \<in> set (chapter_ids p)"
  shows "\<exists>q i. updateChapter_obj fresh chapterId updater (Some p) = Some q
           \<and> i < length (obj_chapters p)
           \<and> chapter_id (chapter_of (obj_chapters p ! i)) = chapterId
           \<and> obj_chapters q = (obj_chapters p)[i := updater (obj_chapters p ! i)]
           \<and> (\<forall>j<length (obj_chapters p). j \<noteq> i \<longrightarrow> obj_chapters q ! j = obj_chapters p ! j)
           \<and> obj_title q = obj_title p \<and> obj_examSets q = obj_examSets p"
proof -
  from assms obtain i where i: "i < length (obj_chapters p)"
      "chapter_id (chapter_of (obj_chapters p ! i)) = chapterId"
      "map (\<lambda>c. if chapter_id (chapter_of c) = chapterId then updater c else c) (obj_chapters p)
         = (obj_chapters p)[i := updater (obj_chapters p ! i)]"
    using map_if_distinct_update[of "\<lambda>c. chapter_id (chapter_of c)" "obj_chapters p" chapterId updater]
    unfolding chapter_ids_def by blast
  let ?q = "p\<lparr>outline_ref := fresh,
              obj_chapters := (obj_chapters p)[i := updater (obj_chapters p ! i)]\<rparr>"
  have "updateChapter_obj fresh chapterId updater (Some p) = Some ?q"
    by (simp add: updateChapter_obj_def i(3))
  moreover have "\<forall>j<length (obj_chapters p). j \<noteq> i \<longrightarrow> obj_chapters ?q ! j = obj_chapters p ! j"
    by simp
  ultimately show ?thesis using i(1,2) by (intro exI[of _ ?q] exI[of _ i]) simp
qed

text \<open>
  The theorem at a tree of two chapters, updating the second.
\<close>

theorem C1_updateChapter_frame_witness:
  "distinct (chapter_ids example_tree) \<and> ascii ''b'' \<in> set (chapter_ids example_tree)
   \<and> (\<exists>q i. updateChapter_obj 3 (ascii ''b'') example_rename (Some example_tree) = Some q
           \<and> i < length (obj_chapters example_tree)
           \<and> chapter_id (chapter_of (obj_chapters example_tree ! i)) = ascii ''b''
           \<and> obj_chapters q = (obj_chapters example_tree)[i := example_rename (obj_chapters example_tree ! i)]
           \<and> (\<forall>j<length (obj_chapters example_tree). j \<noteq> i \<longrightarrow> obj_chapters q ! j = obj_chapters example_tree ! j)
           \<and> obj_title q = obj_title example_tree \<and> obj_examSets q = obj_examSets example_tree)"
proof -
  have d: "distinct (chapter_ids example_tree)"
    by (simp add: chapter_ids_def example_tree_def example_chapter_def ascii_def)
  have m: "ascii ''b'' \<in> set (chapter_ids example_tree)"
    by (simp add: chapter_ids_def example_tree_def example_chapter_def)
  show ?thesis using d m C1_updateChapter_frame[OF d m, of 3 example_rename] by simp
qed

text \<open>
  C2, as stated, fails for the root: the id \<open>z\<close> is not in the tree, yet the object
  literal of \<open>updateChapter\<close> yields a new root object (reference 3) and not the input
  object (reference 0).  The result is therefore not reference-equal to the input.
\<close>

theorem C2_fresh_root_counterexample:
  "ascii ''z'' \<notin> set (chapter_ids example_tree)
   \<and> updateChapter_obj 3 (ascii ''z'') example_rename (Some example_tree)
       = Some (example_tree\<lparr>outline_ref := 3\<rparr>)
   \<and> outline_ref (example_tree\<lparr>outline_ref := 3\<rparr>) \<noteq> outline_ref example_tree"
  by (simp add: updateChapter_obj_def example_tree_def chapter_ids_def example_chapter_def
      ascii_def)


lemma updateChapter_absent:
  "chapterId \<notin> set (map chapter_id (chapters v)) \<Longrightarrow> updateChapter chapterId f (Some v) = Some v"
  by (simp add: updateChapter_def map_if_absent[of chapterId chapter_id "chapters v" f])

lemma updateSection_section_absent:
  assumes "\<forall>c\<in>set (chapters v). chapter_id c = chapterId
             \<longrightarrow> sectionId \<notin> set (map section_id (sections c))"
  shows "updateSection chapterId sectionId g (Some v) = Some v"
proof -
  let ?u = "\<lambda>prevChapter. prevChapter\<lparr>sections :=
          map (\<lambda>s. if section_id s = sectionId then g s else s) (sections prevChapter)\<rparr>"
  have "(if chapter_id c = chapterId then ?u c else c) = c" if "c \<in> set (chapters v)" for c
    using assms that map_if_absent[of sectionId section_id "sections c" g] by simp
  then have "map (\<lambda>c. if chapter_id c = chapterId then ?u c else c) (chapters v) = chapters v"
    by (intro map_idI)
  then show ?thesis by (simp add: updateSection_def updateChapter_def)
qed

text \<open>
  C2, amended.  For a chapter id that is not in the tree, \<open>updateChapter\<close> returns a
  new root object whose title, exam sets and chapter objects are exactly those of the
  input (the same chapter references in the same order), so the tree is structurally
  identical to the input; as values, input and result are equal.  \<open>updateSection\<close>
  likewise returns an equal tree when the chapter id is absent, and when no chapter
  with that id has a section with the section id.  On an absent outline all three
  return the absent outline.
\<close>

theorem C2_absent_id_same_structure:
  "(chapterId \<notin> set (chapter_ids p) \<longrightarrow>
      (\<exists>q. updateChapter_obj fresh chapterId updater (Some p) = Some q
          \<and> outline_ref q = fresh
          \<and> obj_title q = obj_title p \<and> obj_chapters q = obj_chapters p
          \<and> obj_examSets q = obj_examSets p \<and> erase q = erase p))
   \<and> (chapterId' \<notin> set (map chapter_id (chapters v)) \<longrightarrow>
        updateChapter chapterId' f (Some v) = Some v
        \<and> updateSection chapterId' sectionId' g (Some v) = Some v)
   \<and> ((\<forall>c\<in>set (chapters w). chapter_id c = chapterId'' \<longrightarrow>
          sectionId'' \<notin> set (map section_id (sections c))) \<longrightarrow>
        updateSection chapterId'' sectionId'' h (Some w) = Some w)
   \<and> updateChapter_obj fresh chapterId updater None = None
   \<and> updateChapter chapterId' f None = None
   \<and> updateSection chapterId' sectionId' g None = None"
proof -
  have obj: "\<exists>q. updateChapter_obj fresh chapterId updater (Some p) = Some q
          \<and> outline_ref q = fresh
          \<and> obj_title q = obj_title p \<and> obj_chapters q = obj_chapters p
          \<and> obj_examSets q = obj_examSets p \<and> erase q = erase p"
    if "chapterId \<notin> set (chapter_ids p)"
    using that
      map_if_absent[of chapterId "\<lambda>c. chapter_id (chapter_of c)" "obj_chapters p" updater]
    by (simp add: updateChapter_obj_def chapter_ids_def erase_def)
  have sec: "updateSection chapterId' sectionId' g (Some v) = Some v"
    if "chapterId' \<notin> set (map chapter_id (chapters v))"
    using that by (simp add: updateSection_def updateChapter_absent)
  have none: "updateChapter_obj fresh chapterId updater None = None"
      "updateChapter chapterId' f None = None"
      "updateSection chapterId' sectionId' g None = None"
    by (simp_all add: updateChapter_obj_def updateChapter_def updateSection_def)
  show ?thesis
    using obj sec none updateChapter_absent[of chapterId' v f]
      updateSection_section_absent[of w chapterId'' sectionId'' h]
    by blast
qed

text \<open>
  The theorem at an absent chapter id, and at a present chapter with an absent section.
\<close>

theorem C2_absent_id_same_structure_witness:
  "ascii ''z'' \<notin> set (chapter_ids example_tree)
   \<and> (\<exists>q. updateChapter_obj 3 (ascii ''z'') example_rename (Some example_tree) = Some q
          \<and> outline_ref q = 3
          \<and> obj_title q = obj_title example_tree \<and> obj_chapters q = obj_chapters example_tree
          \<and> obj_examSets q = obj_examSets example_tree \<and> erase q = erase example_tree)
   \<and> ascii ''z'' \<notin> set (map chapter_id (chapters example_outline))
   \<and> updateChapter (ascii ''z'') (onDelete_exerciseSet (ascii ''e'')) (Some example_outline)
       = Some example_outline
   \<and> updateSection (ascii ''z'') (ascii ''s1'') example_fill (Some example_outline)
       = Some example_outline
   \<and> (\<exists>c\<in>set (chapters example_outline). chapter_id c = ascii ''a'')
   \<and> updateSection (ascii ''a'') (ascii ''s2'') example_fill (Some example_outline)
       = Some example_outline"
proof -
  have a: "ascii ''z'' \<notin> set (chapter_ids example_tree)"
    by (simp add: chapter_ids_def example_tree_def example_chapter_def ascii_def)
  have b: "ascii ''z'' \<notin> set (map chapter_id (chapters example_outline))"
    by (simp add: example_outline_def example_chapter_def ascii_def)
  have c: "\<forall>c\<in>set (chapters example_outline). chapter_id c = ascii ''a''
             \<longrightarrow> ascii ''s2'' \<notin> set (map section_id (sections c))"
    by (simp add: example_outline_def example_chapter_def example_section_def ascii_def)
  have d: "\<exists>c\<in>set (chapters example_outline). chapter_id c = ascii ''a''"
    by (simp add: example_outline_def example_chapter_def)
  show ?thesis
    using a b c d
      C2_absent_id_same_structure[of "ascii ''z''" example_tree 3 example_rename
        "ascii ''z''" example_outline "onDelete_exerciseSet (ascii ''e'')" "ascii ''s1''"
        example_fill example_outline "ascii ''a''" "ascii ''s2''" example_fill]
    by blast
qed

subsection \<open>Deleting a set\<close>

text \<open>
  C3, as stated, fails on duplicates: of two exercise sets with the same id, deleting by
  that id removes both.
\<close>

theorem C3_duplicates_counterexample:
  "length (exerciseSets example_duplicates) = 2
   \<and> exerciseSets (onDelete_exerciseSet (ascii ''e'') example_duplicates) = []"
  by (simp add: onDelete_exerciseSet_def example_duplicates_def example_set_def)

text \<open>
  C3, amended.  Deleting by id keeps exactly the sets whose id differs from the given
  one, in their original order: the result is a subsequence of the input, a set with
  the id does not occur in it, and any other set occurs as often as before.  So every
  set with the id is removed.  When the id is absent the sequence is unchanged.  When
  the ids of the sequence are pairwise different and the id is present, exactly one
  element, the matching one, is removed.  This holds for the exercise sets and for the
  solver sets of a chapter.
\<close>

theorem C3_remove_by_id:
  "(i \<notin> set (map set_id (exerciseSets p)) \<longrightarrow>
      exerciseSets (onDelete_exerciseSet i p) = exerciseSets p)
   \<and> (distinct (map set_id (exerciseSets q)) \<and> j \<in> set (map set_id (exerciseSets q)) \<longrightarrow>
        (\<exists>ys s zs. exerciseSets q = ys @ s # zs \<and> set_id s = j
            \<and> exerciseSets (onDelete_exerciseSet j q) = ys @ zs))
   \<and> set (exerciseSets (onDelete_exerciseSet k r)) = {s \<in> set (exerciseSets r). set_id s \<noteq> k}
   \<and> subseq (exerciseSets (onDelete_exerciseSet k r)) (exerciseSets r)
   \<and> (\<forall>s. count_list (exerciseSets (onDelete_exerciseSet k r)) s
            = (if set_id s = k then 0 else count_list (exerciseSets r) s))
   \<and> (a \<notin> set (map solver_id (solverSets u)) \<longrightarrow>
        solverSets (onDelete_solverSet a u) = solverSets u)
   \<and> (distinct (map solver_id (solverSets v)) \<and> b \<in> set (map solver_id (solverSets v)) \<longrightarrow>
        (\<exists>ys s zs. solverSets v = ys @ s # zs \<and> solver_id s = b
            \<and> solverSets (onDelete_solverSet b v) = ys @ zs))
   \<and> set (solverSets (onDelete_solverSet c w)) = {s \<in> set (solverSets w). solver_id s \<noteq> c}
   \<and> subseq (solverSets (onDelete_solverSet c w)) (solverSets w)
   \<and> (\<forall>s. count_list (solverSets (onDelete_solverSet c w)) s
            = (if solver_id s = c then 0 else count_list (solverSets w) s))"
proof -
  have e1: "i \<notin> set (map set_id (exerciseSets p)) \<longrightarrow>
      exerciseSets (onDelete_exerciseSet i p) = exerciseSets p"
    using filter_absent[of i set_id "exerciseSets p"] by (simp add: onDelete_exerciseSet_def)
  have e2: "distinct (map set_id (exerciseSets q)) \<and> j \<in> set (map set_id (exerciseSets q)) \<longrightarrow>
        (\<exists>ys s zs. exerciseSets q = ys @ s # zs \<and> set_id s = j
            \<and> exerciseSets (onDelete_exerciseSet j q) = ys @ zs)"
    using filter_distinct_present[of set_id "exerciseSets q" j]
    by (simp add: onDelete_exerciseSet_def)
  have e3: "set (exerciseSets (onDelete_exerciseSet k r)) = {s \<in> set (exerciseSets r). set_id s \<noteq> k}"
      "subseq (exerciseSets (onDelete_exerciseSet k r)) (exerciseSets r)"
      "\<forall>s. count_list (exerciseSets (onDelete_exerciseSet k r)) s
            = (if set_id s = k then 0 else count_list (exerciseSets r) s)"
    by (simp_all add: onDelete_exerciseSet_def count_list_filter_id)
  have s1: "a \<notin> set (map solver_id (solverSets u)) \<longrightarrow>
        solverSets (onDelete_solverSet a u) = solverSets u"
    using filter_absent[of a solver_id "solverSets u"] by (simp add: onDelete_solverSet_def)
  have s2: "distinct (map solver_id (solverSets v)) \<and> b \<in> set (map solver_id (solverSets v)) \<longrightarrow>
        (\<exists>ys s zs. solverSets v = ys @ s # zs \<and> solver_id s = b
            \<and> solverSets (onDelete_solverSet b v) = ys @ zs)"
    using filter_distinct_present[of solver_id "solverSets v" b]
    by (simp add: onDelete_solverSet_def)
  have s3: "set (solverSets (onDelete_solverSet c w)) = {s \<in> set (solverSets w). solver_id s \<noteq> c}"
      "subseq (solverSets (onDelete_solverSet c w)) (solverSets w)"
      "\<forall>s. count_list (solverSets (onDelete_solverSet c w)) s
            = (if solver_id s = c then 0 else count_list (solverSets w) s)"
    by (simp_all add: onDelete_solverSet_def count_list_filter_id)
  from e1 e2 e3 s1 s2 s3 show ?thesis by blast
qed

text \<open>
  The theorem at a chapter with two exercise sets and two solver sets, and, for the
  part on repeated ids, at a chapter in which the id \<open>e\<close> occurs twice among four
  exercise sets and the id \<open>v\<close> twice among three solver sets: the sets \<open>f\<close> and
  \<open>g\<close> stay, in this order, and the solver set \<open>w\<close> stays.
\<close>

theorem C3_remove_by_id_witness:
  "ascii ''z'' \<notin> set (map set_id (exerciseSets example_busy_chapter))
   \<and> exerciseSets (onDelete_exerciseSet (ascii ''z'') example_busy_chapter)
       = exerciseSets example_busy_chapter
   \<and> distinct (map set_id (exerciseSets example_busy_chapter))
   \<and> ascii ''e1'' \<in> set (map set_id (exerciseSets example_busy_chapter))
   \<and> (\<exists>ys s zs. exerciseSets example_busy_chapter = ys @ s # zs \<and> set_id s = ascii ''e1''
          \<and> exerciseSets (onDelete_exerciseSet (ascii ''e1'') example_busy_chapter) = ys @ zs)
   \<and> subseq (exerciseSets (onDelete_exerciseSet (ascii ''e'') example_repeated))
        (exerciseSets example_repeated)
   \<and> (\<forall>s. count_list (exerciseSets (onDelete_exerciseSet (ascii ''e'') example_repeated)) s
            = (if set_id s = ascii ''e'' then 0 else count_list (exerciseSets example_repeated) s))
   \<and> exerciseSets (onDelete_exerciseSet (ascii ''e'') example_repeated)
       = [example_set (ascii ''f'') [], example_set (ascii ''g'') []]
   \<and> ascii ''z'' \<notin> set (map solver_id (solverSets example_busy_chapter))
   \<and> solverSets (onDelete_solverSet (ascii ''z'') example_busy_chapter)
       = solverSets example_busy_chapter
   \<and> distinct (map solver_id (solverSets example_busy_chapter))
   \<and> ascii ''v2'' \<in> set (map solver_id (solverSets example_busy_chapter))
   \<and> (\<exists>ys s zs. solverSets example_busy_chapter = ys @ s # zs \<and> solver_id s = ascii ''v2''
          \<and> solverSets (onDelete_solverSet (ascii ''v2'') example_busy_chapter) = ys @ zs)
   \<and> subseq (solverSets (onDelete_solverSet (ascii ''v'') example_repeated))
        (solverSets example_repeated)
   \<and> (\<forall>s. count_list (solverSets (onDelete_solverSet (ascii ''v'') example_repeated)) s
            = (if solver_id s = ascii ''v'' then 0 else count_list (solverSets example_repeated) s))
   \<and> solverSets (onDelete_solverSet (ascii ''v'') example_repeated) = [example_solver (ascii ''w'')]"
proof -
  have a: "ascii ''z'' \<notin> set (map set_id (exerciseSets example_busy_chapter))"
      "distinct (map set_id (exerciseSets example_busy_chapter))"
      "ascii ''e1'' \<in> set (map set_id (exerciseSets example_busy_chapter))"
    by (simp_all add: example_busy_chapter_def example_set_def ascii_def)
  have b: "ascii ''z'' \<notin> set (map solver_id (solverSets example_busy_chapter))"
      "distinct (map solver_id (solverSets example_busy_chapter))"
      "ascii ''v2'' \<in> set (map solver_id (solverSets example_busy_chapter))"
    by (simp_all add: example_busy_chapter_def example_solver_def ascii_def)
  have c: "exerciseSets (onDelete_exerciseSet (ascii ''e'') example_repeated)
       = [example_set (ascii ''f'') [], example_set (ascii ''g'') []]"
      "solverSets (onDelete_solverSet (ascii ''v'') example_repeated) = [example_solver (ascii ''w'')]"
    by (simp_all add: onDelete_exerciseSet_def onDelete_solverSet_def example_repeated_def
        example_set_def example_solver_def ascii_def)
  show ?thesis
    using a b c
      C3_remove_by_id[of "ascii ''z''" example_busy_chapter example_busy_chapter "ascii ''e1''"
        "ascii ''e''" example_repeated
        "ascii ''z''" example_busy_chapter example_busy_chapter "ascii ''v2''"
        "ascii ''v''" example_repeated]
    by blast
qed

text \<open>
  The exam sets of the outline are deleted the same way.
\<close>

lemma onDelete_examSet_absent:
  "i \<notin> set (map set_id (examSets p)) \<Longrightarrow> onDelete_examSet i (Some p) = Some p"
  by (simp add: onDelete_examSet_def filter_absent[of i set_id "examSets p"])

lemma onDelete_examSet_present:
  assumes "distinct (map set_id (examSets p))" and "i \<in> set (map set_id (examSets p))"
  shows "\<exists>ys s zs. examSets p = ys @ s # zs \<and> set_id s = i
           \<and> onDelete_examSet i (Some p) = Some (p\<lparr>examSets := ys @ zs\<rparr>)"
proof -
  from filter_distinct_present[OF assms] obtain ys s zs
    where "examSets p = ys @ s # zs" "set_id s = i"
      "filter (\<lambda>s. set_id s \<noteq> i) (examSets p) = ys @ zs"
    by blast
  then have "examSets p = ys @ s # zs \<and> set_id s = i
      \<and> onDelete_examSet i (Some p) = Some (p\<lparr>examSets := ys @ zs\<rparr>)"
    by (simp add: onDelete_examSet_def)
  then show ?thesis by blast
qed

section \<open>Properties of the generation service\<close>

subsection \<open>The cleanup pass\<close>

lemma strip_fences_id: "\<not> has_fence s \<Longrightarrow> strip_fences s = s"
proof (induction s)
  case Nil
  then show ?case by simp
next
  case (Cons c cs)
  from Cons.prems have nf: "take 3 (c # cs) \<noteq> fence" and rest: "\<not> has_fence cs" by simp_all
  have "take 7 (c # cs) \<noteq> fence_json"
  proof
    assume "take 7 (c # cs) = fence_json"
    then have "take 3 (take 7 (c # cs)) = take 3 fence_json" by simp
    then have "take 3 (c # cs) = fence"
      by (simp add: fence_def fence_json_def ascii_def)
    with nf show False by simp
  qed
  with nf rest Cons.IH show ?case by simp
qed

lemma strip_trailing_commas_id: "\<not> has_trailing_comma s \<Longrightarrow> strip_trailing_commas s = s"
proof (induction s)
  case Nil
  then show ?case by simp
next
  case (Cons c cs)
  from Cons.prems have rest: "\<not> has_trailing_comma cs" by simp
  with Cons.IH have ih: "strip_trailing_commas cs = cs" by simp
  show ?case
  proof (cases "dropWhile is_space cs")
    case Nil
    show ?thesis unfolding strip_trailing_commas.simps Nil ih by simp
  next
    case (Cons d r)
    with Cons.prems have "\<not> (c = 0x2C \<and> (d = 0x7D \<or> d = 0x5D))" by simp
    then show ?thesis unfolding strip_trailing_commas.simps Cons ih by auto
  qed
qed

lemma trim_id: "trimmed s \<Longrightarrow> trim s = s"
proof (cases s)
  case Nil
  then show ?thesis by (simp add: trim_def)
next
  case (Cons c cs)
  assume "trimmed s"
  with Cons have a: "\<not> is_space c" and b: "\<not> is_space (last s)" by (simp_all add: trimmed_def)
  from a Cons have "dropWhile is_space s = s" by simp
  moreover have "dropWhile is_space (rev s) = rev s"
  proof (cases "rev s")
    case Nil
    then show ?thesis by simp
  next
    case (Cons d ds)
    then have "s \<noteq> []" by auto
    then have "hd (rev s) = last s" by (simp add: hd_rev)
    with Cons have "d = last s" by simp
    with b have "dropWhile is_space (d # ds) = d # ds" by simp
    then show ?thesis unfolding Cons .
  qed
  ultimately show ?thesis by (simp add: trim_def)
qed

lemma json_text_braces_newline: "json_text (ascii ''{}'' @ [0x0A])"
proof -
  have "json_value (0x7B # [] @ [0x7D])" by (rule empty_object) (simp add: json_ws_def)
  then have "json_element ([] @ (0x7B # [] @ [0x7D]) @ [0x0A])"
    by (rule element[rotated]) (simp_all add: json_ws_def)
  then show ?thesis by (simp add: json_text_def ascii_def)
qed

text \<open>
  C6, as stated, fails: the text \<open>{}\<close> followed by a line feed is a JSON text, and
  the cleanup pass returns it without the line feed.
\<close>

theorem C6_trailing_newline_counterexample:
  "json_text (ascii ''{}'' @ [0x0A])
   \<and> cleanup (ascii ''{}'' @ [0x0A]) = ascii ''{}''
   \<and> cleanup (ascii ''{}'' @ [0x0A]) \<noteq> ascii ''{}'' @ [0x0A]"
  using json_text_braces_newline
  by (simp add: cleanup_def trim_def is_space_def ascii_def fence_def fence_json_def)

text \<open>
  C6, amended.  A text that has no white space at either end, no fence marker and no comma
  followed by white space and a closing brace or bracket comes out of the cleanup pass
  unchanged; this covers every JSON text of that form.
\<close>

theorem C6_cleanup_untouched:
  assumes "trimmed s" and "\<not> has_fence s" and "\<not> has_trailing_comma s"
  shows "cleanup s = s"
  using assms by (simp add: cleanup_def strip_fences_id trim_id strip_trailing_commas_id)

lemma json_text_small_object: "json_text (ascii ''{\"a\":[1,2]}'')"
proof -
  have num: "json_number [c]" if "json_integer [c]" for c
  proof -
    from that have "[c] = [] @ [c] @ [] @ [] \<and> ([] = [] \<or> [] = [0x2D::code_unit])
               \<and> json_integer [c] \<and> json_fraction [] \<and> json_exponent []"
      by (simp add: json_fraction_def json_exponent_def)
    then show ?thesis unfolding json_number_def by blast
  qed
  have int: "json_integer [0x31]" "json_integer [0x32]"
    by (simp_all add: json_integer_def json_digits_def is_digit_def)
  have ws: "json_ws []" by (simp add: json_ws_def)
  have el: "json_element v" if "json_value v" for v
    using element[OF ws that ws] by simp
  have "json_element [0x31]" "json_element [0x32]"
    using int by (auto intro!: el number num)
  then have "json_elements ([0x31] @ 0x2C # [0x32])"
    by (intro more_elements one_element)
  then have "json_element (0x5B # ([0x31] @ 0x2C # [0x32]) @ [0x5D])"
    by (intro el array)
  moreover have "json_characters [0x61]"
    by (intro character no_characters) simp_all
  ultimately have "json_member ([] @ 0x22 # [0x61] @ 0x22 # [] @ 0x3A
                     # (0x5B # ([0x31] @ 0x2C # [0x32]) @ [0x5D]))"
    by (intro member ws)
  then have "json_element (0x7B # ([] @ 0x22 # [0x61] @ 0x22 # [] @ 0x3A
                     # (0x5B # ([0x31] @ 0x2C # [0x32]) @ [0x5D])) @ [0x7D])"
    by (intro el object one_member)
  then show ?thesis by (simp add: json_text_def ascii_def)
qed

text \<open>
  The theorem at the JSON text \<open>{"a":[1,2]}\<close>.
\<close>

theorem C6_cleanup_untouched_witness:
  "json_text (ascii ''{\"a\":[1,2]}'')
   \<and> trimmed (ascii ''{\"a\":[1,2]}'')
   \<and> \<not> has_fence (ascii ''{\"a\":[1,2]}'')
   \<and> \<not> has_trailing_comma (ascii ''{\"a\":[1,2]}'')
   \<and> cleanup (ascii ''{\"a\":[1,2]}'') = ascii ''{\"a\":[1,2]}''"
proof -
  have t: "trimmed (ascii ''{\"a\":[1,2]}'')"
    by (simp add: trimmed_def ascii_def is_space_def)
  have f: "\<not> has_fence (ascii ''{\"a\":[1,2]}'')"
    by (simp add: ascii_def fence_def)
  have c: "\<not> has_trailing_comma (ascii ''{\"a\":[1,2]}'')"
    by (simp add: ascii_def is_space_def)
  show ?thesis
    using json_text_small_object t f c C6_cleanup_untouched[OF t f c] by simp
qed

text \<open>
  Inside a string literal the pass works all the same: the JSON texts \<open>"a,]"\<close> and
  \<open>"```"\<close> are string values, and come out as the texts of other strings.
\<close>

lemma cleanup_alters_string_literals:
  "json_text (ascii ''\"a,]\"'') \<and> cleanup (ascii ''\"a,]\"'') = ascii ''\"a]\"''
   \<and> json_text (ascii ''\"```\"'') \<and> cleanup (ascii ''\"```\"'') = ascii ''\"\"''"
proof -
  have ws: "json_ws []" by (simp add: json_ws_def)
  have "json_characters [0x61, 0x2C, 0x5D]"
    by (intro character no_characters) simp_all
  then have "json_element ([] @ (0x22 # [0x61, 0x2C, 0x5D] @ [0x22]) @ [])"
    by (intro element ws string)
  moreover have "json_characters [0x60, 0x60, 0x60]"
    by (intro character no_characters) simp_all
  then have "json_element ([] @ (0x22 # [0x60, 0x60, 0x60] @ [0x22]) @ [])"
    by (intro element ws string)
  ultimately show ?thesis
    by (simp add: json_text_def cleanup_def trim_def is_space_def ascii_def fence_def fence_json_def)
qed

subsection \<open>Topic extraction\<close>

text \<open>
  C9.  The call never throws: \<open>extractTopicsFromText\<close> has a value for every parser
  and every outcome of the external call.  But when the response parses to an object
  without a \<open>topics\<close> property, that value is \<open>undefined\<close>, which is not an array
  of strings.
\<close>

theorem C9_missing_topics_gives_undefined:
  assumes "parse (cleanup t) = Some (Obj props)" and "map_of props (ascii ''topics'') = None"
  shows "extractTopicsFromText parse (Resolved t) = Undefined
         \<and> \<not> is_string_array (extractTopicsFromText parse (Resolved t))"
  using assms by (simp add: extractTopicsFromText_def tryParseJson_def)

text \<open>
  The theorem at the response \<open>{}\<close>, with the one-entry table that reads it as the empty
  object in place of the parser.
\<close>

theorem C9_missing_topics_gives_undefined_witness:
  "map_of [(ascii ''{}'', Obj [])] (cleanup (ascii ''{}'')) = Some (Obj [])
   \<and> map_of ([] :: (jsstring \<times> jsval) list) (ascii ''topics'') = None
   \<and> extractTopicsFromText (map_of [(ascii ''{}'', Obj [])]) (Resolved (ascii ''{}'')) = Undefined
   \<and> \<not> is_string_array
         (extractTopicsFromText (map_of [(ascii ''{}'', Obj [])]) (Resolved (ascii ''{}'')))"
proof -
  have c: "cleanup (ascii ''{}'') = ascii ''{}''"
    by (simp add: cleanup_def trim_def is_space_def ascii_def fence_def fence_json_def)
  have p: "map_of [(ascii ''{}'', Obj [])] (cleanup (ascii ''{}'')) = Some (Obj [])"
    by (simp add: c)
  have m: "map_of ([] :: (jsstring \<times> jsval) list) (ascii ''topics'') = None" by simp
  show ?thesis
    using p m
      C9_missing_topics_gives_undefined[of "map_of [(ascii ''{}'', Obj [])]" "ascii ''{}''" "[]"]
    by simp
qed

text \<open>
  What the call does return on the outcomes the code provides for: the empty array on a
  rejection, on a text that does not parse, and on \<open>null\<close>; and the \<open>topics\<close> of a
  parsed object that has them.
\<close>

lemma extractTopicsFromText_handled:
  "extractTopicsFromText parse Rejected = Arr []"
  "parse (cleanup t) = None \<Longrightarrow> extractTopicsFromText parse (Resolved t) = Arr []"
  "parse (cleanup t) = Some Null \<Longrightarrow> extractTopicsFromText parse (Resolved t) = Arr []"
  "parse (cleanup t) = Some (Obj props) \<Longrightarrow> map_of props (ascii ''topics'') = Some v
     \<Longrightarrow> extractTopicsFromText parse (Resolved t) = v"
  by (simp_all add: extractTopicsFromText_def tryParseJson_def)

section \<open>Properties of the handlers\<close>

subsection \<open>A failed exercise generation\<close>

lemma truthy_no_exercises: "truthy no_exercises"
  by (simp add: no_exercises_def)

lemma get_prop_no_exercises: "get_prop no_exercises (ascii ''exercises'') = Inr (Arr [])"
  by (simp add: no_exercises_def)

text \<open>
  C4.  The failure value of exercise generation is the object \<open>{exercises: []}\<close>
  (a rejected call returns it, and so does a text that does not parse).  It is truthy,
  and so is its empty \<open>exercises\<close> array, so both handlers do append: the chapter
  \<open>a\<close> of the example tree had no exercise set and has one with no exercises
  afterwards, and any outline gets an exam set with no exercises added at the end.
\<close>

theorem C4_failure_value_is_appended:
  "generateExercises parse Rejected = no_exercises
   \<and> exerciseSets_of (ascii ''a'') (Some example_outline) = [[]]
   \<and> exerciseSets_of (ascii ''a'')
        (snd (handleGenerateExercises_settle (hd (chapters example_outline)) (ascii ''n1'')
                (ascii ''limits'') no_exercises (example_view, Some example_outline)))
       = [[\<lparr>set_id = ascii ''n1'', focusedIdea = ascii ''limits'', exercises = Arr []\<rparr>]]
   \<and> handleGenerateExam_settle newId idea no_exercises (view, Some prev)
       = Inr (view\<lparr>ov_isLoading := (ov_isLoading view)(ascii ''exam'' \<mapsto> False),
                   ov_isModalOpen := False, ov_focusedIdea := []\<rparr>,
              Some (prev\<lparr>examSets := examSets prev @
                      [\<lparr>set_id = newId, focusedIdea = idea, exercises = Arr []\<rparr>]\<rparr>))"
proof -
  have a: "generateExercises parse Rejected = no_exercises"
    by (simp add: generateExercises_def)
  have b: "exerciseSets_of (ascii ''a'') (Some example_outline) = [[]]"
    by (simp add: exerciseSets_of_def example_outline_def example_chapter_def ascii_def)
  have c: "exerciseSets_of (ascii ''a'')
        (snd (handleGenerateExercises_settle (hd (chapters example_outline)) (ascii ''n1'')
                (ascii ''limits'') no_exercises (example_view, Some example_outline)))
       = [[\<lparr>set_id = ascii ''n1'', focusedIdea = ascii ''limits'', exercises = Arr []\<rparr>]]"
    by (simp add: handleGenerateExercises_settle_def handleAction_settle_def
        truthy_no_exercises get_prop_no_exercises exercises_updater_def updateChapter_def
        spread_patch_def no_patch_def exerciseSets_of_def example_outline_def
        example_chapter_def)
       (simp add: ascii_def)
  have d: "handleGenerateExam_settle newId idea no_exercises (view, Some prev)
       = Inr (view\<lparr>ov_isLoading := (ov_isLoading view)(ascii ''exam'' \<mapsto> False),
                   ov_isModalOpen := False, ov_focusedIdea := []\<rparr>,
              Some (prev\<lparr>examSets := examSets prev @
                      [\<lparr>set_id = newId, focusedIdea = idea, exercises = Arr []\<rparr>]\<rparr>))"
    by (simp add: handleGenerateExam_settle_def get_prop_no_exercises)
  from a b c d show ?thesis by blast
qed

subsection \<open>A task that resolves with nothing\<close>

text \<open>
  C5, as stated, fails: the exercises task resolves with \<open>null\<close> and the solver task
  with the empty string; in both cases the focused idea \<open>limits\<close> is emptied, and the
  solver text \<open>2+2\<close> as well.
\<close>

theorem C5_input_cleared_counterexample:
  "cv_focusedIdea example_view = ascii ''limits''
   \<and> cv_focusedIdea (fst (handleGenerateExercises_settle (hd (chapters example_outline))
        (ascii ''n1'') (ascii ''limits'') Null (example_view, Some example_outline))) = []
   \<and> cv_solverText example_view = ascii ''2+2''
   \<and> cv_solverText (fst (handleSolverSubmit_settle (hd (chapters example_outline))
        (ascii ''n1'') (ascii ''2+2'') None [] (example_view, Some example_outline))) = []
   \<and> ascii ''limits'' \<noteq> [] \<and> ascii ''2+2'' \<noteq> []"
  by (simp add: handleGenerateExercises_settle_def handleSolverSubmit_settle_def
      handleAction_settle_def example_view_def ascii_def)

text \<open>
  C5, amended.  Whatever the exercises task and the solver task resolve with, success or
  failure, the busy flag of the task is set to false, the modal is closed and the
  focused idea is emptied, and the solver task also empties the solver text and image:
  the input is cleared, not kept.  The same holds for the exam task whenever the
  \<open>exercises\<close> of its result can be read.  The outline is left as it is when the
  exercises task resolves with a falsy value, when the solver task resolves with the
  empty string, and when the \<open>exercises\<close> of the exam result are falsy.  A failed
  solver call resolves with its error string; the string is not empty, so the outline is
  updated as after a success, and the set the updater puts last carries the new id and
  the error string as its solution.
\<close>

theorem C5_failed_task_returns_idle:
  "fst (handleGenerateExercises_settle chapter newId idea data (view, tree))
     = view\<lparr>cv_isLoading := (cv_isLoading view)(ascii ''exercises'' \<mapsto> False),
            cv_modal := None, cv_focusedIdea := []\<rparr>
   \<and> fst (handleSolverSubmit_settle chapter newId solverText solverImage result (view, tree))
     = view\<lparr>cv_isLoading := (cv_isLoading view)(ascii ''solver'' \<mapsto> False),
            cv_modal := None, cv_focusedIdea := [],
            cv_solverImage := None, cv_solverText := []\<rparr>
   \<and> (get_prop examData (ascii ''exercises'') = Inr examExercises \<longrightarrow>
        (\<exists>newTree. handleGenerateExam_settle newId idea examData (oview, tree)
           = Inr (oview\<lparr>ov_isLoading := (ov_isLoading oview)(ascii ''exam'' \<mapsto> False),
                        ov_isModalOpen := False, ov_focusedIdea := []\<rparr>, newTree)))
   \<and> (\<not> truthy data \<longrightarrow>
        snd (handleGenerateExercises_settle chapter newId idea data (view, tree)) = tree)
   \<and> snd (handleSolverSubmit_settle chapter newId solverText solverImage [] (view, tree)) = tree
   \<and> (get_prop emptyData (ascii ''exercises'') = Inr emptyExercises \<and> \<not> truthy emptyExercises \<longrightarrow>
        handleGenerateExam_settle newId idea emptyData (oview, tree)
          = Inr (oview\<lparr>ov_isLoading := (ov_isLoading oview)(ascii ''exam'' \<mapsto> False),
                       ov_isModalOpen := False, ov_focusedIdea := []\<rparr>, tree))
   \<and> solveWithAI Rejected = solver_error_message
   \<and> solver_error_message \<noteq> []
   \<and> snd (handleSolverSubmit_settle chapter newId solverText solverImage (solveWithAI Rejected)
             (view, tree))
       = updateChapter (chapter_id chapter)
           (\<lambda>prevChapter. spread_patch prevChapter
              (solver_updater chapter newId solverText solverImage solver_error_message)) tree
   \<and> solver_id (last (solverSets (spread_patch prevChapter
         (solver_updater chapter newId solverText solverImage solver_error_message)))) = newId
   \<and> solution (last (solverSets (spread_patch prevChapter
         (solver_updater chapter newId solverText solverImage solver_error_message))))
       = solver_error_message"
proof -
  have v1: "fst (handleGenerateExercises_settle chapter newId idea data (view, tree))
     = view\<lparr>cv_isLoading := (cv_isLoading view)(ascii ''exercises'' \<mapsto> False),
            cv_modal := None, cv_focusedIdea := []\<rparr>"
    by (simp add: handleGenerateExercises_settle_def handleAction_settle_def)
  have v2: "fst (handleSolverSubmit_settle chapter newId solverText solverImage result (view, tree))
     = view\<lparr>cv_isLoading := (cv_isLoading view)(ascii ''solver'' \<mapsto> False),
            cv_modal := None, cv_focusedIdea := [],
            cv_solverImage := None, cv_solverText := []\<rparr>"
    by (simp add: handleSolverSubmit_settle_def handleAction_settle_def)
  have v3: "get_prop examData (ascii ''exercises'') = Inr examExercises \<longrightarrow>
        (\<exists>newTree. handleGenerateExam_settle newId idea examData (oview, tree)
           = Inr (oview\<lparr>ov_isLoading := (ov_isLoading oview)(ascii ''exam'' \<mapsto> False),
                        ov_isModalOpen := False, ov_focusedIdea := []\<rparr>, newTree))"
    by (simp add: handleGenerateExam_settle_def)
  have t1: "\<not> truthy data \<longrightarrow>
        snd (handleGenerateExercises_settle chapter newId idea data (view, tree)) = tree"
    by (simp add: handleGenerateExercises_settle_def handleAction_settle_def)
  have t2: "snd (handleSolverSubmit_settle chapter newId solverText solverImage [] (view, tree))
              = tree"
    by (simp add: handleSolverSubmit_settle_def handleAction_settle_def)
  have t3: "get_prop emptyData (ascii ''exercises'') = Inr emptyExercises \<and> \<not> truthy emptyExercises \<longrightarrow>
        handleGenerateExam_settle newId idea emptyData (oview, tree)
          = Inr (oview\<lparr>ov_isLoading := (ov_isLoading oview)(ascii ''exam'' \<mapsto> False),
                       ov_isModalOpen := False, ov_focusedIdea := []\<rparr>, tree)"
    by (simp add: handleGenerateExam_settle_def)
  have f1: "solveWithAI Rejected = solver_error_message"
    by (simp add: solveWithAI_def)
  have f2: "solver_error_message \<noteq> []"
    by (simp add: solver_error_message_def ascii_def)
  have f3: "snd (handleSolverSubmit_settle chapter newId solverText solverImage
                  (solveWithAI Rejected) (view, tree))
       = updateChapter (chapter_id chapter)
           (\<lambda>prevChapter. spread_patch prevChapter
              (solver_updater chapter newId solverText solverImage solver_error_message)) tree"
    using f2 by (simp add: f1 handleSolverSubmit_settle_def handleAction_settle_def)
  have f4: "solver_id (last (solverSets (spread_patch prevChapter
         (solver_updater chapter newId solverText solverImage solver_error_message)))) = newId"
      "solution (last (solverSets (spread_patch prevChapter
         (solver_updater chapter newId solverText solverImage solver_error_message))))
       = solver_error_message"
    by (simp_all add: spread_patch_def solver_updater_def no_patch_def)
  from v1 v2 v3 t1 t2 t3 f1 f2 f3 f4 show ?thesis by blast
qed

text \<open>
  The theorem at the results \<open>null\<close> and \<open>{}\<close>.
\<close>

theorem C5_failed_task_returns_idle_witness:
  "get_prop (Obj []) (ascii ''exercises'') = Inr Undefined
   \<and> (\<exists>newTree. handleGenerateExam_settle (ascii ''n1'') (ascii ''limits'') (Obj [])
          (example_outline_view, example_snapshot_tree)
        = Inr (example_outline_view
                 \<lparr>ov_isLoading := (ov_isLoading example_outline_view)(ascii ''exam'' \<mapsto> False),
                  ov_isModalOpen := False, ov_focusedIdea := []\<rparr>, newTree))
   \<and> \<not> truthy Null
   \<and> snd (handleGenerateExercises_settle example_snapshot (ascii ''n1'') (ascii ''limits'') Null
        (example_view, example_snapshot_tree)) = example_snapshot_tree
   \<and> fst (handleGenerateExercises_settle example_snapshot (ascii ''n1'') (ascii ''limits'') Null
        (example_view, example_snapshot_tree))
       = example_view\<lparr>cv_isLoading := (cv_isLoading example_view)(ascii ''exercises'' \<mapsto> False),
                      cv_modal := None, cv_focusedIdea := []\<rparr>
   \<and> \<not> truthy Undefined
   \<and> handleGenerateExam_settle (ascii ''n1'') (ascii ''limits'') (Obj [])
        (example_outline_view, example_snapshot_tree)
       = Inr (example_outline_view
                \<lparr>ov_isLoading := (ov_isLoading example_outline_view)(ascii ''exam'' \<mapsto> False),
                 ov_isModalOpen := False, ov_focusedIdea := []\<rparr>, example_snapshot_tree)"
proof -
  have a: "\<not> truthy Null" "\<not> truthy Undefined" by simp_all
  have b: "get_prop (Obj []) (ascii ''exercises'') = Inr Undefined" by simp
  show ?thesis
    using a b
      C5_failed_task_returns_idle[of example_snapshot "ascii ''n1''" "ascii ''limits''" Null
        example_view example_snapshot_tree _ _ _ "Obj []" Undefined example_outline_view
        "Obj []" Undefined]
    by blast
qed

text \<open>
  A result not covered by the above: an exercise response that parses to \<open>null\<close>
  makes the exam handler throw before any of its setters has run, so its busy flag
  stays set.
\<close>

lemma exam_null_result_throws:
  "parse (cleanup t) = Some Null \<Longrightarrow>
     handleGenerateExam_settle newId idea (generateExercises parse (Resolved t)) world
       = Inl TypeError"
  by (cases world) (simp add: handleGenerateExam_settle_def generateExercises_def tryParseJson_def)

subsection \<open>Appending\<close>

text \<open>
  The exam handler and the image handler build on the sequence of the moment: the new
  element goes behind what the outline holds when the result is applied.
\<close>

lemma exam_append:
  assumes "get_prop data (ascii ''exercises'') = Inr exs" and "truthy exs"
  shows "\<exists>view'. handleGenerateExam_settle newId idea data (view, Some prev)
           = Inr (view', Some (prev\<lparr>examSets := examSets prev @
                    [\<lparr>set_id = newId, focusedIdea = idea, exercises = exs\<rparr>]\<rparr>))"
  using assms by (simp add: handleGenerateExam_settle_def)

lemma image_append:
  assumes "bytes \<noteq> []"
  shows "\<exists>img. snd (handleGenerateImage_settle chapterId section newId idea (Some bytes) (view, tree))
           = updateSection chapterId (section_id section)
               (\<lambda>prevSection. prevSection\<lparr>images := images prevSection @ [img]\<rparr>) tree"
  using assms by (auto simp: handleGenerateImage_settle_def)

text \<open>
  The exercise and solver handlers build on the chapter the closure captured: whatever
  the chapter of the moment holds, its sequence becomes the captured one plus the new
  element.
\<close>

lemma exercises_updater_from_snapshot:
  "exerciseSets (spread_patch prevChapter (exercises_updater chapter newId idea data))
     = exerciseSets chapter @
       [\<lparr>set_id = newId, focusedIdea = idea,
         exercises = (case get_prop data (ascii ''exercises'') of Inr v \<Rightarrow> v | Inl _ \<Rightarrow> Undefined)\<rparr>]"
  by (simp add: spread_patch_def exercises_updater_def no_patch_def)

lemma solver_updater_from_snapshot:
  "butlast (solverSets (spread_patch prevChapter
      (solver_updater chapter newId solverText solverImage answer))) = solverSets chapter"
  by (simp add: spread_patch_def solver_updater_def no_patch_def)

text \<open>
  C8.  The exercise handler is called on the chapter \<open>a\<close> holding the set \<open>e1\<close>;
  while the request is pending the set is deleted, so the chapter holds no set; then
  the request resolves.  Afterwards the chapter holds \<open>e1\<close> again and the new set:
  the sequence grew by two, and the first of them is the deleted set.  The same happens
  to a solver set deleted while the solver request is pending.
\<close>

theorem C8_stale_snapshot_restores_deleted:
  "exerciseSets_of (ascii ''a'') example_snapshot_tree = [[example_set (ascii ''e1'') []]]
   \<and> exerciseSets_of (ascii ''a'')
        (updateChapter (ascii ''a'') (onDelete_exerciseSet (ascii ''e1'')) example_snapshot_tree)
       = [[]]
   \<and> exerciseSets_of (ascii ''a'')
        (snd (handleGenerateExercises_settle example_snapshot (ascii ''n1'') [] example_data
           (example_view,
            updateChapter (ascii ''a'') (onDelete_exerciseSet (ascii ''e1''))
              example_snapshot_tree)))
       = [[example_set (ascii ''e1'') [],
           \<lparr>set_id = ascii ''n1'', focusedIdea = [],
            exercises = Arr [Obj [(ascii ''problem'', Str (ascii ''p'')), (ascii ''parts'', Arr [])]]\<rparr>]]
   \<and> solverSets_of (ascii ''a'')
        (updateChapter (ascii ''a'') (onDelete_solverSet (ascii ''v1'')) example_snapshot_tree)
       = [[]]
   \<and> map length (solverSets_of (ascii ''a'')
        (snd (handleSolverSubmit_settle example_snapshot (ascii ''n2'') (ascii ''2+2'') None
           (ascii ''4'')
           (example_view,
            updateChapter (ascii ''a'') (onDelete_solverSet (ascii ''v1''))
              example_snapshot_tree))))
       = [2]"
proof -
  have ids: "ascii ''a'' \<noteq> ascii ''b''" "ascii ''4'' \<noteq> []"
    by (simp_all add: ascii_def)
  have ex: "get_prop example_data (ascii ''exercises'')
              = Inr (Arr [Obj [(ascii ''problem'', Str (ascii ''p'')), (ascii ''parts'', Arr [])]])"
      "truthy example_data"
    by (simp_all add: example_data_def)
  have a: "exerciseSets_of (ascii ''a'') example_snapshot_tree = [[example_set (ascii ''e1'') []]]"
    using ids by (simp add: exerciseSets_of_def example_snapshot_tree_def example_snapshot_def
        example_chapter_def)
  have b: "exerciseSets_of (ascii ''a'')
        (updateChapter (ascii ''a'') (onDelete_exerciseSet (ascii ''e1'')) example_snapshot_tree)
       = [[]]"
    using ids by (simp add: exerciseSets_of_def example_snapshot_tree_def example_snapshot_def
        example_chapter_def updateChapter_def onDelete_exerciseSet_def example_set_def)
  have c: "exerciseSets_of (ascii ''a'')
        (snd (handleGenerateExercises_settle example_snapshot (ascii ''n1'') [] example_data
           (example_view,
            updateChapter (ascii ''a'') (onDelete_exerciseSet (ascii ''e1''))
              example_snapshot_tree)))
       = [[example_set (ascii ''e1'') [],
           \<lparr>set_id = ascii ''n1'', focusedIdea = [],
            exercises = Arr [Obj [(ascii ''problem'', Str (ascii ''p'')), (ascii ''parts'', Arr [])]]\<rparr>]]"
    using ids ex
    by (simp add: handleGenerateExercises_settle_def handleAction_settle_def
        exerciseSets_of_def example_snapshot_tree_def updateChapter_def
        exercises_updater_def spread_patch_def no_patch_def onDelete_exerciseSet_def
        example_snapshot_def example_chapter_def example_set_def)
  have d: "solverSets_of (ascii ''a'')
        (updateChapter (ascii ''a'') (onDelete_solverSet (ascii ''v1'')) example_snapshot_tree)
       = [[]]"
    using ids by (simp add: solverSets_of_def example_snapshot_tree_def example_snapshot_def
        example_chapter_def updateChapter_def onDelete_solverSet_def example_solver_def)
  have e: "map length (solverSets_of (ascii ''a'')
        (snd (handleSolverSubmit_settle example_snapshot (ascii ''n2'') (ascii ''2+2'') None
           (ascii ''4'')
           (example_view,
            updateChapter (ascii ''a'') (onDelete_solverSet (ascii ''v1''))
              example_snapshot_tree))))
       = [2]"
    using ids
    by (simp add: handleSolverSubmit_settle_def handleAction_settle_def
        solverSets_of_def example_snapshot_tree_def updateChapter_def
        spread_patch_def solver_updater_def no_patch_def onDelete_solverSet_def
        example_snapshot_def example_chapter_def example_solver_def)
  from a b c d e show ?thesis by blast
qed

end
